theory Spec2Isabelle
  imports Main
begin

section \<open>Python primitives used by app.py\<close>

text \<open>
  Form values are byte strings (\<open>string\<close>). The whitespace that \<open>str.strip()\<close> removes
  is the ASCII part of \<open>str.isspace\<close> (codes 9-13, 28-31 and 32); the whitespace that
  \<open>int()\<close> skips around a number is the C set only (codes 9-13 and 32). Whitespace,
  digits and letters outside ASCII are not modelled: \<open>str_strip\<close>, \<open>str_lower\<close> and
  \<open>py_int\<close> treat every byte above 127 as an ordinary character.
\<close>

definition is_space :: "char \<Rightarrow> bool" where
  "is_space c = (c \<in> set [CHR 0x09, CHR 0x0A, CHR 0x0B, CHR 0x0C, CHR 0x0D,
                            CHR 0x1C, CHR 0x1D, CHR 0x1E, CHR 0x1F, CHR 0x20])"

definition str_strip :: "string \<Rightarrow> string" where
  "str_strip s = rev (dropWhile is_space (rev (dropWhile is_space s)))"

definition lower_char :: "char \<Rightarrow> char" where
  "lower_char c =
     (case map_of (zip ''ABCDEFGHIJKLMNOPQRSTUVWXYZ'' ''abcdefghijklmnopqrstuvwxyz'') c of
        Some d \<Rightarrow> d
      | None \<Rightarrow> c)"

definition str_lower :: "string \<Rightarrow> string" where
  "str_lower s = map lower_char s"

text \<open>\<open>needle in hay\<close>: the needle occurs as a contiguous run of \<open>hay\<close>.\<close>

fun str_in :: "string \<Rightarrow> string \<Rightarrow> bool" where
  "str_in needle [] = (needle = [])"
| "str_in needle (c # cs) = (take (length needle) (c # cs) = needle \<or> str_in needle cs)"

text \<open>
  \<open>int(s)\<close> in base 10: optional surrounding C whitespace, an optional sign, then digits
  with single underscores allowed between digits. \<open>None\<close> is \<open>ValueError\<close>.
\<close>

definition is_c_space :: "char \<Rightarrow> bool" where
  "is_c_space c = (c \<in> set [CHR 0x09, CHR 0x0A, CHR 0x0B, CHR 0x0C, CHR 0x0D, CHR 0x20])"

definition digit_of :: "char \<Rightarrow> nat option" where
  "digit_of c = map_of (zip ''0123456789'' [0, 1, 2, 3, 4, 5, 6, 7, 8, 9]) c"

fun py_digits :: "nat \<Rightarrow> string \<Rightarrow> nat option" where
  "py_digits acc [] = Some acc"
| "py_digits acc [c] = (case digit_of c of None \<Rightarrow> None | Some v \<Rightarrow> Some (10 * acc + v))"
| "py_digits acc (c # d # ds) =
     (if c = CHR ''_''
      then (case digit_of d of None \<Rightarrow> None | Some v \<Rightarrow> py_digits (10 * acc + v) ds)
      else (case digit_of c of None \<Rightarrow> None | Some v \<Rightarrow> py_digits (10 * acc + v) (d # ds)))"

definition py_nat :: "string \<Rightarrow> nat option" where
  "py_nat s =
     (case s of
        [] \<Rightarrow> None
      | c # cs \<Rightarrow> (case digit_of c of None \<Rightarrow> None | Some v \<Rightarrow> py_digits v cs))"

definition py_int :: "string \<Rightarrow> int option" where
  "py_int s =
     (let t = rev (dropWhile is_c_space (rev (dropWhile is_c_space s))) in
      case t of
        [] \<Rightarrow> None
      | c # cs \<Rightarrow>
          if c = CHR ''-'' then map_option (\<lambda>n. - int n) (py_nat cs)
          else if c = CHR ''+'' then map_option int (py_nat cs)
          else map_option int (py_nat t))"

text \<open>\<open>int(x or 0)\<close> for a form value \<open>x\<close>: a missing or empty field counts as 0.\<close>

definition int_or_0 :: "string option \<Rightarrow> int option" where
  "int_or_0 x =
     (case x of None \<Rightarrow> Some 0 | Some s \<Rightarrow> if s = [] then Some 0 else py_int s)"

text \<open>
  What app.py takes from its libraries and the theory leaves open: werkzeug's password
  hashing, and Python's floating point (the type \<open>'f\<close>) with \<open>float(s)\<close> on a string
  (\<open>None\<close> is \<open>ValueError\<close>), the float of an integer literal such as \<open>30.0\<close>, and the
  product \<open>int * float\<close>. Every definition below takes them as the parameter \<open>env\<close>.
\<close>

record 'f env =
  generate_password_hash :: "string \<Rightarrow> string"
  py_float :: "string \<Rightarrow> 'f option"
  float_of_int :: "int \<Rightarrow> 'f"
  int_times_float :: "int \<Rightarrow> 'f \<Rightarrow> 'f"

text \<open>\<open>float(x or 0.0)\<close> for a form value \<open>x\<close>.\<close>

definition float_or_0 :: "'f env \<Rightarrow> string option \<Rightarrow> 'f option" where
  "float_or_0 env x =
     (case x of
        None \<Rightarrow> Some (float_of_int env 0)
      | Some s \<Rightarrow> if s = [] then Some (float_of_int env 0) else py_float env s)"

section \<open>The three tables\<close>

text \<open>
  One record per model class, one list per table in insertion order. The columns
  \<open>created_at\<close> and \<open>order_date\<close> (wall-clock defaults that only order the listings) are
  left out. Storage limits of SQLite (64-bit integers) are not modelled: quantities are
  Python integers.
\<close>

record User =
  u_id :: nat
  username :: string
  password_hash :: string
  role :: string
  u_name :: string
  contact_number :: string

record 'f Product =
  p_id :: nat
  farmer_id :: nat
  p_name :: string
  description :: string
  quantity :: int
  price :: 'f
  image_url :: string

record 'f Order =
  o_id :: nat
  customer_id :: nat
  product_id :: nat
  o_quantity :: int
  total_price :: 'f
  is_new :: bool

record 'f db =
  users :: "User list"
  products :: "'f Product list"
  orders :: "'f Order list"

text \<open>An integer primary key left to SQLite: one more than the largest key in the table.\<close>

definition next_id :: "nat list \<Rightarrow> nat" where
  "next_id ids = Suc (foldr max ids 0)"

text \<open>\<open>Model.query.get(i)\<close> and \<open>User.query.filter_by(username=n).first()\<close>.\<close>

definition get_user :: "'f db \<Rightarrow> nat \<Rightarrow> User option" where
  "get_user d i = find (\<lambda>u. u_id u = i) (users d)"

definition get_product :: "'f db \<Rightarrow> nat \<Rightarrow> 'f Product option" where
  "get_product d i = find (\<lambda>p. p_id p = i) (products d)"

definition user_by_username :: "'f db \<Rightarrow> string \<Rightarrow> User option" where
  "user_by_username d n = find (\<lambda>u. username u = n) (users d)"

section \<open>Requests and responses\<close>

datatype http_method = GET | POST

record request =
  req_method :: http_method
  form :: "string \<Rightarrow> string option"
  session_user :: "nat option"

datatype exn = AttributeError | ValueError | IntegrityError

text \<open>
  What a view returns: a rendered template, a redirect to an endpoint with the message
  and category it flashed (if any), \<open>abort(code)\<close>, flask-login's login challenge,
  a JSON count, or an uncaught exception (answered with status 500; the session is
  discarded, so the tables stay as they were).
\<close>

datatype response =
    Render string
  | Redirect string "(string \<times> string) option"
  | Abort nat
  | Unauthorized
  | Jsonify nat
  | Raised exn

text \<open>\<open>request.form.get(k, '')\<close>.\<close>

definition form_get :: "request \<Rightarrow> string \<Rightarrow> string" where
  "form_get req k = (case form req k of None \<Rightarrow> [] | Some v \<Rightarrow> v)"

text \<open>
  \<open>current_user\<close>: the row \<open>load_user\<close> finds for the id in the session; \<open>None\<close> is the
  anonymous user.
\<close>

definition current_user :: "'f db \<Rightarrow> request \<Rightarrow> User option" where
  "current_user d req = (case session_user req of None \<Rightarrow> None | Some i \<Rightarrow> get_user d i)"

definition login_required ::
  "('f db \<Rightarrow> request \<Rightarrow> User \<Rightarrow> response \<times> 'f db) \<Rightarrow> 'f db \<Rightarrow> request \<Rightarrow> response \<times> 'f db" where
  "login_required f d req =
     (case current_user d req of None \<Rightarrow> (Unauthorized, d) | Some u \<Rightarrow> f d req u)"

definition role_required ::
  "string \<Rightarrow> ('f db \<Rightarrow> request \<Rightarrow> User \<Rightarrow> response \<times> 'f db) \<Rightarrow> 'f db \<Rightarrow> request
     \<Rightarrow> response \<times> 'f db" where
  "role_required r f d req =
     (case current_user d req of
        None \<Rightarrow> (Unauthorized, d)
      | Some u \<Rightarrow> if role u \<noteq> r then (Abort 403, d) else f d req u)"

section \<open>The image selector\<close>

definition generate_product_image_url :: "string \<Rightarrow> string" where
  "generate_product_image_url product_name =
     (let name_lower = str_lower product_name in
      if str_in ''tomato'' name_lower then ''/static/images/ai_tomatoes.jpg''
      else if str_in ''spinach'' name_lower then ''/static/images/ai_spinach.jpg''
      else if str_in ''cabbage'' name_lower then ''/static/images/ai_cabbage.jpg''
      else ''/static/images/default_ai_product.jpg'')"

section \<open>The views\<close>

text \<open>
  Each view takes the tables and the request and returns its response with the tables
  after it. A view that flashes and redirects, aborts or raises never commits.
\<close>

subsection \<open>register\<close>

definition register :: "'f env \<Rightarrow> 'f db \<Rightarrow> request \<Rightarrow> response \<times> 'f db" where
  "register env d req =
     (if current_user d req \<noteq> None then (Redirect ''index'' None, d)
      else if req_method req = POST then
        (case form req ''username'' of
           None \<Rightarrow> (Raised AttributeError, d)
         | Some raw_username \<Rightarrow>
             let uname = str_strip raw_username;
                 name = str_strip (form_get req ''name'');
                 contact = str_strip (form_get req ''contact_number'');
                 invalid = (Redirect ''register''
                              (Some (''All required fields must be filled'', ''danger'')), d)
             in (case (form req ''password'', form req ''role'') of
                   (Some password, Some r) \<Rightarrow>
                     if uname = [] \<or> password = [] \<or> r \<notin> set [''farmer'', ''customer'']
                        \<or> name = [] \<or> contact = []
                     then invalid
                     else if user_by_username d uname \<noteq> None
                     then (Redirect ''register'' (Some (''Username already taken'', ''warning'')), d)
                     else (Redirect ''login''
                             (Some (''Registration successful. Please log in.'', ''success'')),
                           d\<lparr>users := users d @
                              [\<lparr>u_id = next_id (map u_id (users d)), username = uname,
                                password_hash = generate_password_hash env password,
                                role = r, u_name = name, contact_number = contact\<rparr>]\<rparr>)
                 | _ \<Rightarrow> invalid))
      else (Render ''register.html'', d))"

subsection \<open>farmer_dashboard and new_orders_count\<close>




subsection \<open>add_product, edit_product, delete_product\<close>

definition add_product :: "'f env \<Rightarrow> 'f db \<Rightarrow> request \<Rightarrow> response \<times> 'f db" where
  "add_product env d req =
     role_required ''farmer''
       (\<lambda>d req u.
          if req_method req = POST then
            (case form req ''name'' of
               None \<Rightarrow> (Raised AttributeError, d)
             | Some raw_name \<Rightarrow>
                 (case int_or_0 (form req ''quantity'') of
                    None \<Rightarrow> (Raised ValueError, d)
                  | Some qty \<Rightarrow>
                      (case float_or_0 env (form req ''price'') of
                         None \<Rightarrow> (Raised ValueError, d)
                       | Some pr \<Rightarrow>
                           let name = str_strip raw_name;
                               descr = str_strip (form_get req ''description'');
                               img = str_strip (form_get req ''image_url'')
                           in if name = []
                              then (Redirect ''add_product''
                                      (Some (''Product name required'', ''danger'')), d)
                              else
                                (Redirect ''farmer_dashboard'' (Some (''Product added'', ''success'')),
                                 d\<lparr>products := products d @
                                    [\<lparr>p_id = next_id (map p_id (products d)),
                                      farmer_id = u_id u, p_name = name, description = descr,
                                      quantity = qty, price = pr,
                                      image_url = (if img = []
                                                   then generate_product_image_url name
                                                   else img)\<rparr>]\<rparr>))))
          else (Render ''add_edit_product.html'', d))
       d req"



subsection \<open>order_product\<close>

definition order_product :: "'f env \<Rightarrow> nat \<Rightarrow> 'f db \<Rightarrow> request \<Rightarrow> response \<times> 'f db" where
  "order_product env pid d req =
     login_required
       (\<lambda>d req u.
          case get_product d pid of
            None \<Rightarrow> (Abort 404, d)
          | Some product \<Rightarrow>
              if role u \<noteq> ''customer''
              then (Redirect ''products'' (Some (''Only customers can place orders'', ''warning'')), d)
              else if req_method req = POST then
                (case int_or_0 (form req ''quantity'') of
                   None \<Rightarrow> (Raised ValueError, d)
                 | Some qty \<Rightarrow>
                     if qty \<le> 0
                     then (Redirect ''order_product'' (Some (''Invalid quantity'', ''danger'')), d)
                     else if qty > quantity product
                     then (Redirect ''order_product''
                             (Some (''Not enough stock available'', ''danger'')), d)
                     else
                       let total = int_times_float env qty (price product);
                           order = \<lparr>o_id = next_id (map o_id (orders d)),
                                     customer_id = u_id u, product_id = p_id product,
                                     o_quantity = qty, total_price = total, is_new = True\<rparr>
                       in (Redirect ''my_orders'' (Some (''Order placed successfully'', ''success'')),
                           d\<lparr>products :=
                               map (\<lambda>p. if p_id p = p_id product
                                         then p\<lparr>quantity := quantity product - qty\<rparr> else p)
                                 (products d),
                             orders := orders d @ [order]\<rparr>))
              else (Render ''order_form.html'', d))
       d req"

subsection \<open>admin_edit_user\<close>


subsection \<open>create_demo_data\<close>

definition create_demo_data :: "'f env \<Rightarrow> 'f db \<Rightarrow> 'f db" where
  "create_demo_data env d =
     (if users d \<noteq> [] then d
      else
        let admin = \<lparr>u_id = next_id (map u_id (users d)), username = ''admin'',
                       password_hash = generate_password_hash env ''123'', role = ''admin'',
                       u_name = ''System Admin'', contact_number = ''0000000000''\<rparr>;
            us1 = users d @ [admin];
            farmer = \<lparr>u_id = next_id (map u_id us1), username = ''farmer1'',
                        password_hash = generate_password_hash env ''farmerpass'',
                        role = ''farmer'', u_name = ''Alice Farmer'',
                        contact_number = ''9876543210''\<rparr>;
            us2 = us1 @ [farmer];
            customer = \<lparr>u_id = next_id (map u_id us2), username = ''cust1'',
                          password_hash = generate_password_hash env ''custpass'',
                          role = ''customer'', u_name = ''Bob Customer'',
                          contact_number = ''9998887776''\<rparr>;
            us3 = us2 @ [customer];
            p1 = \<lparr>p_id = next_id (map p_id (products d)), farmer_id = u_id farmer,
                    p_name = ''Tomatoes'', description = ''Fresh red tomatoes'', quantity = 100,
                    price = float_of_int env 30,
                    image_url = generate_product_image_url ''Tomatoes''\<rparr>;
            ps1 = products d @ [p1];
            p2 = \<lparr>p_id = next_id (map p_id ps1), farmer_id = u_id farmer,
                    p_name = ''Spinach'', description = ''Leafy spinach'', quantity = 50,
                    price = float_of_int env 20,
                    image_url = generate_product_image_url ''Spinach''\<rparr>;
            ps2 = ps1 @ [p2];
            p3 = \<lparr>p_id = next_id (map p_id ps2), farmer_id = u_id farmer,
                    p_name = ''Cabbage'', description = ''Crisp green cabbage'', quantity = 40,
                    price = float_of_int env 25,
                    image_url = generate_product_image_url ''Cabbage''\<rparr>;
            ps3 = ps2 @ [p3];
            o1 = \<lparr>o_id = next_id (map o_id (orders d)), customer_id = u_id customer,
                    product_id = p_id p1, o_quantity = 5, total_price = float_of_int env 150,
                    is_new = False\<rparr>
        in \<lparr>users = us3, products = ps3, orders = orders d @ [o1]\<rparr>)"

section \<open>Sequences of requests\<close>




section \<open>Predicates on tables and requests\<close>






text \<open>
  A registration form as the register view accepts it: a POST without a login session in
  which every required field is filled and the role is one of the two self-service roles.
\<close>

definition well_formed_registration :: "request \<Rightarrow> bool" where
  "well_formed_registration req =
     (req_method req = POST \<and> session_user req = None \<and>
      (case (form req ''username'', form req ''password'', form req ''role'') of
         (Some un, Some pw, Some r) \<Rightarrow>
           str_strip un \<noteq> [] \<and> pw \<noteq> [] \<and> r \<in> set [''farmer'', ''customer''] \<and>
           str_strip (form_get req ''name'') \<noteq> [] \<and>
           str_strip (form_get req ''contact_number'') \<noteq> []
       | _ \<Rightarrow> False))"



section \<open>Sample data\<close>

text \<open>
  An environment to evaluate the views on concrete requests: prices with integral values
  only, and a hash that tags the password.
\<close>

definition sample_env :: "int env" where
  "sample_env =
     \<lparr>generate_password_hash = (\<lambda>pw. ''hash:'' @ pw), py_float = py_int,
      float_of_int = (\<lambda>n. n), int_times_float = (\<lambda>n x. n * x)\<rparr>"

definition empty_db :: "'f db" where
  "empty_db = \<lparr>users = [], products = [], orders = []\<rparr>"

definition mk_request :: "http_method \<Rightarrow> (string \<times> string) list \<Rightarrow> nat option \<Rightarrow> request" where
  "mk_request m kvs su = \<lparr>req_method = m, form = map_of kvs, session_user = su\<rparr>"

text \<open>The tables after the first start: admin 1, farmer1 2, cust1 3.\<close>

definition seeded_db :: "int db" where
  "seeded_db = create_demo_data sample_env empty_db"


text \<open>farmer1 lists Kale with the quantity field \<open>-5\<close>.\<close>

definition negative_stock_db :: "int db" where
  "negative_stock_db =
     snd (add_product sample_env seeded_db
            (mk_request POST [(''name'', ''Kale''), (''quantity'', ''-5'')] (Some 2)))"

section \<open>Facts about the primitives\<close>





lemma login_required_pass:
  "current_user d req = Some u \<Longrightarrow> login_required f d req = f d req u"
  by (simp add: login_required_def)


section \<open>Evaluating the sample data\<close>

lemma seeded_db_value:
  "seeded_db =
     \<lparr>users =
        [\<lparr>u_id = 1, username = ''admin'', password_hash = ''hash:123'', role = ''admin'',
          u_name = ''System Admin'', contact_number = ''0000000000''\<rparr>,
         \<lparr>u_id = 2, username = ''farmer1'', password_hash = ''hash:farmerpass'',
          role = ''farmer'', u_name = ''Alice Farmer'', contact_number = ''9876543210''\<rparr>,
         \<lparr>u_id = 3, username = ''cust1'', password_hash = ''hash:custpass'',
          role = ''customer'', u_name = ''Bob Customer'', contact_number = ''9998887776''\<rparr>],
      products =
        [\<lparr>p_id = 1, farmer_id = 2, p_name = ''Tomatoes'', description = ''Fresh red tomatoes'',
          quantity = 100, price = 30, image_url = ''/static/images/ai_tomatoes.jpg''\<rparr>,
         \<lparr>p_id = 2, farmer_id = 2, p_name = ''Spinach'', description = ''Leafy spinach'',
          quantity = 50, price = 20, image_url = ''/static/images/ai_spinach.jpg''\<rparr>,
         \<lparr>p_id = 3, farmer_id = 2, p_name = ''Cabbage'', description = ''Crisp green cabbage'',
          quantity = 40, price = 25, image_url = ''/static/images/ai_cabbage.jpg''\<rparr>],
      orders =
        [\<lparr>o_id = 1, customer_id = 3, product_id = 1, o_quantity = 5, total_price = 150,
          is_new = False\<rparr>]\<rparr>"
  by (simp add: seeded_db_def create_demo_data_def empty_db_def sample_env_def next_id_def
      Let_def generate_product_image_url_def str_lower_def lower_char_def)

lemmas req_eval = mk_request_def current_user_def get_user_def get_product_def
  user_by_username_def form_get_def str_strip_def is_space_def int_or_0_def float_or_0_def
  py_int_def py_nat_def digit_of_def is_c_space_def sample_env_def Let_def

section \<open>The image reference of a product\<close>



lemmas view_eval = register_def add_product_def order_product_def role_required_def
  login_required_def generate_product_image_url_def str_lower_def lower_char_def next_id_def
  well_formed_registration_def

lemma negative_stock_db_value:
  "negative_stock_db =
     seeded_db\<lparr>products := products seeded_db @
       [\<lparr>p_id = 4, farmer_id = 2, p_name = ''Kale'', description = [], quantity = - 5,
         price = 0, image_url = ''/static/images/default_ai_product.jpg''\<rparr>]\<rparr>"
  by (simp add: negative_stock_db_def seeded_db_value req_eval view_eval)


section \<open>Facts about the tables and the views\<close>

lemma find_SomeD: "find P xs = Some x \<Longrightarrow> x \<in> set xs \<and> P x"
  by (induction xs) (auto split: if_splits)

lemma get_product_SomeD: "get_product d pid = Some p \<Longrightarrow> p \<in> set (products d) \<and> p_id p = pid"
  unfolding get_product_def by (drule find_SomeD) simp

lemma find_map_update:
  "find (\<lambda>p. key p = k) xs = Some x \<Longrightarrow> (\<And>y. key (f y) = key y) \<Longrightarrow>
   find (\<lambda>p. key p = k) (map (\<lambda>p. if key p = k then f p else p) xs) = Some (f x)"
  by (induction xs) (auto split: if_splits)

lemma find_map_update_other:
  "k' \<noteq> k \<Longrightarrow> (\<And>y. key (f y) = key y) \<Longrightarrow>
   find (\<lambda>p. key p = k') (map (\<lambda>p. if key p = k then f p else p) xs) = find (\<lambda>p. key p = k') xs"
  by (induction xs) auto

section \<open>Editing and deleting a product of another farmer\<close>



section \<open>Placing an order\<close>

lemma order_product_placed:
  assumes "current_user d req = Some u" and "role u = ''customer''"
    and "get_product d pid = Some p" and "req_method req = POST"
    and "int_or_0 (form req ''quantity'') = Some q" and "0 < q" and "q \<le> quantity p"
  shows "order_product env pid d req =
     (Redirect ''my_orders'' (Some (''Order placed successfully'', ''success'')),
      d\<lparr>products := map (\<lambda>r. if p_id r = pid then r\<lparr>quantity := quantity p - q\<rparr> else r)
                         (products d),
        orders := orders d @
          [\<lparr>o_id = next_id (map o_id (orders d)), customer_id = u_id u, product_id = pid,
            o_quantity = q, total_price = int_times_float env q (price p), is_new = True\<rparr>]\<rparr>)"
  using assms get_product_SomeD[OF assms(3)]
  by (simp add: order_product_def login_required_def Let_def)

lemma order_product_cases:
  "snd (order_product env pid d req) = d \<or>
   (\<exists>u p q. current_user d req = Some u \<and> role u = ''customer'' \<and> get_product d pid = Some p \<and>
      req_method req = POST \<and> int_or_0 (form req ''quantity'') = Some q \<and> 0 < q \<and> q \<le> quantity p)"
  by (auto simp: order_product_def login_required_def Let_def split: option.splits)

lemma stock_changes:
  assumes "get_product d pid = Some p" and "0 < q"
  shows "map (\<lambda>r. if p_id r = pid then r\<lparr>quantity := quantity p - q\<rparr> else r) (products d)
           \<noteq> products d"
proof
  assume e: "map (\<lambda>r. if p_id r = pid then r\<lparr>quantity := quantity p - q\<rparr> else r) (products d)
           = products d"
  have m: "p \<in> set (products d)" "p_id p = pid" using get_product_SomeD[OF assms(1)] by auto
  have "map (\<lambda>r. if p_id r = pid then r\<lparr>quantity := quantity p - q\<rparr> else r) (products d)
           = map (\<lambda>r. r) (products d)" using e by simp
  then have "(if p_id p = pid then p\<lparr>quantity := quantity p - q\<rparr> else p) = p"
    using m(1) unfolding map_eq_conv by blast
  then have "quantity (p\<lparr>quantity := quantity p - q\<rparr>) = quantity p" using m(2) by simp
  then show False using assms(2) by simp
qed


text \<open>
  C1. When a customer posts an order for an existing product with a quantity \<open>q\<close>,
  \<open>0 < q \<le> quantity\<close>, order_product answers with the success redirect; the tables after
  it have exactly one more order, with \<open>is_new\<close> set, the customer, the product, \<open>q\<close> and
  the total \<open>q * price\<close> (the product's price before the order); the product's quantity is
  lower by exactly \<open>q\<close>; every other product and the users are unchanged. The two writes
  come together: for every request, the orders are unchanged exactly when the products
  are unchanged.
\<close>

theorem place_order_succeeds:
  assumes "current_user d req = Some u" and "role u = ''customer''"
    and "get_product d pid = Some p" and "req_method req = POST"
    and "int_or_0 (form req ''quantity'') = Some q" and "0 < q" and "q \<le> quantity p"
  shows "order_product env pid d req =
     (Redirect ''my_orders'' (Some (''Order placed successfully'', ''success'')),
      d\<lparr>products := map (\<lambda>r. if p_id r = pid then r\<lparr>quantity := quantity p - q\<rparr> else r)
                         (products d),
        orders := orders d @
          [\<lparr>o_id = next_id (map o_id (orders d)), customer_id = u_id u, product_id = pid,
            o_quantity = q, total_price = int_times_float env q (price p), is_new = True\<rparr>]\<rparr>)
   \<and> get_product (snd (order_product env pid d req)) pid = Some (p\<lparr>quantity := quantity p - q\<rparr>)
   \<and> (\<forall>k. k \<noteq> pid \<longrightarrow> get_product (snd (order_product env pid d req)) k = get_product d k)
   \<and> users (snd (order_product env pid d req)) = users d
   \<and> length (orders (snd (order_product env pid d req))) = Suc (length (orders d))
   \<and> (\<forall>r. (orders (snd (order_product env pid d r)) = orders d) =
            (products (snd (order_product env pid d r)) = products d))"
proof -
  note placed = order_product_placed[OF assms, of env]
  have a: "get_product (snd (order_product env pid d req)) pid = Some (p\<lparr>quantity := quantity p - q\<rparr>)"
    using assms(3) unfolding placed get_product_def
    by (simp add: find_map_update[where key = p_id and f = "\<lambda>r. r\<lparr>quantity := quantity p - q\<rparr>"])
  have b: "get_product (snd (order_product env pid d req)) k = get_product d k" if "k \<noteq> pid" for k
    using that unfolding placed get_product_def
    by (simp add: find_map_update_other[where key = p_id and f = "\<lambda>r. r\<lparr>quantity := quantity p - q\<rparr>"])
  have c: "(orders (snd (order_product env pid d r)) = orders d) =
            (products (snd (order_product env pid d r)) = products d)" for r
  proof -
    consider "snd (order_product env pid d r) = d"
      | u' p' q' where "current_user d r = Some u'" "role u' = ''customer''"
          "get_product d pid = Some p'" "req_method r = POST"
          "int_or_0 (form r ''quantity'') = Some q'" "0 < q'" "q' \<le> quantity p'"
      using order_product_cases[of env pid d r] by blast
    then show ?thesis
    proof cases
      case 1
      then show ?thesis by simp
    next
      case 2
      note pl = order_product_placed[OF 2, of env]
      have "orders (snd (order_product env pid d r)) \<noteq> orders d" unfolding pl by simp
      moreover have "products (snd (order_product env pid d r)) \<noteq> products d"
        unfolding pl using stock_changes[OF 2(3) 2(6)] by simp
      ultimately show ?thesis by simp
    qed
  qed
  show ?thesis using placed a b c by simp
qed

text \<open>The theorem at the seeded tables: cust1 orders 5 Tomatoes (100 in stock, 30 each).\<close>

theorem place_order_succeeds_witness:
  "current_user seeded_db (mk_request POST [(''quantity'', ''5'')] (Some 3)) =
     Some \<lparr>u_id = 3, username = ''cust1'', password_hash = ''hash:custpass'',
          role = ''customer'', u_name = ''Bob Customer'', contact_number = ''9998887776''\<rparr>
   \<and> get_product seeded_db 1 =
     Some \<lparr>p_id = 1, farmer_id = 2, p_name = ''Tomatoes'', description = ''Fresh red tomatoes'',
          quantity = 100, price = 30, image_url = ''/static/images/ai_tomatoes.jpg''\<rparr>
   \<and> int_or_0 (form (mk_request POST [(''quantity'', ''5'')] (Some 3)) ''quantity'') = Some 5
   \<and> (0::int) < 5 \<and> (5::int) \<le> 100
   \<and> order_product sample_env 1 seeded_db (mk_request POST [(''quantity'', ''5'')] (Some 3)) =
     (Redirect ''my_orders'' (Some (''Order placed successfully'', ''success'')),
      seeded_db\<lparr>products :=
         [\<lparr>p_id = 1, farmer_id = 2, p_name = ''Tomatoes'', description = ''Fresh red tomatoes'',
           quantity = 95, price = 30, image_url = ''/static/images/ai_tomatoes.jpg''\<rparr>,
          \<lparr>p_id = 2, farmer_id = 2, p_name = ''Spinach'', description = ''Leafy spinach'',
           quantity = 50, price = 20, image_url = ''/static/images/ai_spinach.jpg''\<rparr>,
          \<lparr>p_id = 3, farmer_id = 2, p_name = ''Cabbage'', description = ''Crisp green cabbage'',
           quantity = 40, price = 25, image_url = ''/static/images/ai_cabbage.jpg''\<rparr>],
        orders :=
         [\<lparr>o_id = 1, customer_id = 3, product_id = 1, o_quantity = 5, total_price = 150,
           is_new = False\<rparr>,
          \<lparr>o_id = 2, customer_id = 3, product_id = 1, o_quantity = 5, total_price = 150,
           is_new = True\<rparr>]\<rparr>)"
proof -
  let ?req = "mk_request POST [(''quantity'', ''5'')] (Some 3)"
  let ?u = "\<lparr>u_id = 3, username = ''cust1'', password_hash = ''hash:custpass'',
          role = ''customer'', u_name = ''Bob Customer'', contact_number = ''9998887776''\<rparr>"
  let ?p = "\<lparr>p_id = 1, farmer_id = 2, p_name = ''Tomatoes'', description = ''Fresh red tomatoes'',
          quantity = 100, price = 30::int, image_url = ''/static/images/ai_tomatoes.jpg''\<rparr>"
  have h1: "current_user seeded_db ?req = Some ?u" by (simp add: seeded_db_value req_eval)
  have h2: "role ?u = ''customer''" by simp
  have h3: "get_product seeded_db 1 = Some ?p" by (simp add: seeded_db_value req_eval)
  have h4: "req_method ?req = POST" by (simp add: mk_request_def)
  have h5: "int_or_0 (form ?req ''quantity'') = Some 5" by (simp add: req_eval)
  have h6: "(0::int) < 5" by simp
  have h7: "(5::int) \<le> quantity ?p" by simp
  note T = place_order_succeeds[OF h1 h2 h3 h4 h5 h6 h7, of sample_env, THEN conjunct1]
  have e: "order_product sample_env 1 seeded_db ?req =
     (Redirect ''my_orders'' (Some (''Order placed successfully'', ''success'')),
      seeded_db\<lparr>products :=
         [\<lparr>p_id = 1, farmer_id = 2, p_name = ''Tomatoes'', description = ''Fresh red tomatoes'',
           quantity = 95, price = 30, image_url = ''/static/images/ai_tomatoes.jpg''\<rparr>,
          \<lparr>p_id = 2, farmer_id = 2, p_name = ''Spinach'', description = ''Leafy spinach'',
           quantity = 50, price = 20, image_url = ''/static/images/ai_spinach.jpg''\<rparr>,
          \<lparr>p_id = 3, farmer_id = 2, p_name = ''Cabbage'', description = ''Crisp green cabbage'',
           quantity = 40, price = 25, image_url = ''/static/images/ai_cabbage.jpg''\<rparr>],
        orders :=
         [\<lparr>o_id = 1, customer_id = 3, product_id = 1, o_quantity = 5, total_price = 150,
           is_new = False\<rparr>,
          \<lparr>o_id = 2, customer_id = 3, product_id = 1, o_quantity = 5, total_price = 150,
           is_new = True\<rparr>]\<rparr>)"
    unfolding T by (simp add: seeded_db_value next_id_def sample_env_def)
  show ?thesis using h1 h3 h5 e by simp
qed

text \<open>
  C2 (amended). When a customer posts an order for an existing product with a quantity
  \<open>q\<close>: if \<open>q\<close> is positive and greater than the product's quantity, order_product flashes
  \<open>Not enough stock available\<close>; if \<open>q \<le> 0\<close>, it flashes \<open>Invalid quantity\<close>. In both
  cases all three tables are unchanged. The check \<open>q \<le> 0\<close> comes first.
\<close>

theorem place_order_rejections:
  assumes "current_user d req = Some u" and "role u = ''customer''"
    and "get_product d pid = Some p" and "req_method req = POST"
    and "int_or_0 (form req ''quantity'') = Some q"
  shows "(0 < q \<and> quantity p < q \<longrightarrow>
            order_product env pid d req =
              (Redirect ''order_product'' (Some (''Not enough stock available'', ''danger'')), d))
       \<and> (q \<le> 0 \<longrightarrow>
            order_product env pid d req =
              (Redirect ''order_product'' (Some (''Invalid quantity'', ''danger'')), d))"
  using assms by (simp add: order_product_def login_required_def)

text \<open>The theorem at the seeded tables: cust1 asks for 101 Tomatoes, then for -1.\<close>

theorem place_order_rejections_witness:
  "current_user seeded_db (mk_request POST [(''quantity'', ''101'')] (Some 3)) =
     Some \<lparr>u_id = 3, username = ''cust1'', password_hash = ''hash:custpass'',
          role = ''customer'', u_name = ''Bob Customer'', contact_number = ''9998887776''\<rparr>
   \<and> get_product seeded_db 1 =
     Some \<lparr>p_id = 1, farmer_id = 2, p_name = ''Tomatoes'', description = ''Fresh red tomatoes'',
          quantity = 100, price = 30, image_url = ''/static/images/ai_tomatoes.jpg''\<rparr>
   \<and> int_or_0 (form (mk_request POST [(''quantity'', ''101'')] (Some 3)) ''quantity'') = Some 101
   \<and> order_product sample_env 1 seeded_db (mk_request POST [(''quantity'', ''101'')] (Some 3)) =
       (Redirect ''order_product'' (Some (''Not enough stock available'', ''danger'')), seeded_db)
   \<and> int_or_0 (form (mk_request POST [(''quantity'', ''-1'')] (Some 3)) ''quantity'') = Some (- 1)
   \<and> order_product sample_env 1 seeded_db (mk_request POST [(''quantity'', ''-1'')] (Some 3)) =
       (Redirect ''order_product'' (Some (''Invalid quantity'', ''danger'')), seeded_db)"
proof -
  let ?big = "mk_request POST [(''quantity'', ''101'')] (Some 3)"
  let ?neg = "mk_request POST [(''quantity'', ''-1'')] (Some 3)"
  let ?u = "\<lparr>u_id = 3, username = ''cust1'', password_hash = ''hash:custpass'',
          role = ''customer'', u_name = ''Bob Customer'', contact_number = ''9998887776''\<rparr>"
  let ?p = "\<lparr>p_id = 1, farmer_id = 2, p_name = ''Tomatoes'', description = ''Fresh red tomatoes'',
          quantity = 100, price = 30::int, image_url = ''/static/images/ai_tomatoes.jpg''\<rparr>"
  have u1: "current_user seeded_db ?big = Some ?u" by (simp add: seeded_db_value req_eval)
  have u2: "current_user seeded_db ?neg = Some ?u" by (simp add: seeded_db_value req_eval)
  have r: "role ?u = ''customer''" by simp
  have p: "get_product seeded_db 1 = Some ?p" by (simp add: seeded_db_value req_eval)
  have m1: "req_method ?big = POST" by (simp add: mk_request_def)
  have m2: "req_method ?neg = POST" by (simp add: mk_request_def)
  have q1: "int_or_0 (form ?big ''quantity'') = Some 101" by (simp add: req_eval)
  have q2: "int_or_0 (form ?neg ''quantity'') = Some (- 1)" by (simp add: req_eval)
  have a: "order_product sample_env 1 seeded_db ?big =
       (Redirect ''order_product'' (Some (''Not enough stock available'', ''danger'')), seeded_db)"
    using place_order_rejections[OF u1 r p m1 q1, of sample_env] by simp
  have b: "order_product sample_env 1 seeded_db ?neg =
       (Redirect ''order_product'' (Some (''Invalid quantity'', ''danger'')), seeded_db)"
    using place_order_rejections[OF u2 r p m2 q2, of sample_env] by simp
  show ?thesis using u1 p q1 q2 a b by simp
qed

text \<open>
  C2 as stated fails where a product's quantity is negative: Kale has quantity -5, the
  order asks for -3, which is greater than the stock, and the answer is
  \<open>Invalid quantity\<close>, not \<open>Not enough stock available\<close>.
\<close>

theorem place_order_negative_stock_counterexample:
  "get_product negative_stock_db 4 =
     Some \<lparr>p_id = 4, farmer_id = 2, p_name = ''Kale'', description = [], quantity = - 5,
          price = 0, image_url = ''/static/images/default_ai_product.jpg''\<rparr>
   \<and> int_or_0 (form (mk_request POST [(''quantity'', ''-3'')] (Some 3)) ''quantity'') = Some (- 3)
   \<and> (- 5 :: int) < - 3
   \<and> order_product sample_env 4 negative_stock_db (mk_request POST [(''quantity'', ''-3'')] (Some 3)) =
       (Redirect ''order_product'' (Some (''Invalid quantity'', ''danger'')), negative_stock_db)
   \<and> fst (order_product sample_env 4 negative_stock_db
             (mk_request POST [(''quantity'', ''-3'')] (Some 3))) \<noteq>
       Redirect ''order_product'' (Some (''Not enough stock available'', ''danger''))"
proof -
  let ?req = "mk_request POST [(''quantity'', ''-3'')] (Some 3)"
  have p: "get_product negative_stock_db 4 =
     Some \<lparr>p_id = 4, farmer_id = 2, p_name = ''Kale'', description = [], quantity = - 5,
          price = 0, image_url = ''/static/images/default_ai_product.jpg''\<rparr>"
    by (simp add: negative_stock_db_value seeded_db_value get_product_def)
  have q: "int_or_0 (form ?req ''quantity'') = Some (- 3)" by (simp add: req_eval)
  have u: "current_user negative_stock_db ?req =
     Some \<lparr>u_id = 3, username = ''cust1'', password_hash = ''hash:custpass'',
          role = ''customer'', u_name = ''Bob Customer'', contact_number = ''9998887776''\<rparr>"
    by (simp add: negative_stock_db_value seeded_db_value req_eval)
  have m: "req_method ?req = POST" by (simp add: mk_request_def)
  have e: "order_product sample_env 4 negative_stock_db ?req =
       (Redirect ''order_product'' (Some (''Invalid quantity'', ''danger'')), negative_stock_db)"
    using p q u m by (simp add: order_product_def login_required_def)
  show ?thesis using p q e by simp
qed

section \<open>The stock of a product\<close>

















section \<open>Usernames\<close>






















section \<open>Seeing the new orders\<close>


lemma seen_unless_new: "\<not> is_new od \<Longrightarrow> od\<lparr>is_new := False\<rparr> = od"
  by simp









section \<open>Editing a user\<close>




section \<open>Seeding\<close>

lemma foldr_max_init: "foldr max ids (m::nat) = max (foldr max ids 0) m"
  by (induction ids) (simp_all add: max.assoc)

lemma next_id_append_gen: "next_id (ids @ js) = max (next_id ids) (next_id js)"
  by (simp add: next_id_def foldr_max_init[of ids "foldr max js 0"])

lemma next_id_single: "next_id [n] = Suc n"
  by (simp add: next_id_def)

lemma next_id_pair: "next_id [n, Suc n] = Suc (Suc n)"
  by (simp add: next_id_def max_def)

lemma next_id_append: "next_id (ids @ [next_id ids]) = Suc (next_id ids)"
  unfolding next_id_append_gen next_id_single by (simp add: max_def)

lemma next_id_append2: "next_id (ids @ [next_id ids, Suc (next_id ids)]) = Suc (Suc (next_id ids))"
  unfolding next_id_append_gen next_id_pair by (simp add: max_def)

lemma image_url_seeds:
  "generate_product_image_url ''Tomatoes'' = ''/static/images/ai_tomatoes.jpg''"
  "generate_product_image_url ''Spinach'' = ''/static/images/ai_spinach.jpg''"
  "generate_product_image_url ''Cabbage'' = ''/static/images/ai_cabbage.jpg''"
  by (simp_all add: generate_product_image_url_def str_lower_def lower_char_def)

lemma create_demo_data_seeds:
  assumes "users d = []"
  shows "create_demo_data env d =
     \<lparr>users =
        [\<lparr>u_id = 1, username = ''admin'', password_hash = generate_password_hash env ''123'',
          role = ''admin'', u_name = ''System Admin'', contact_number = ''0000000000''\<rparr>,
         \<lparr>u_id = 2, username = ''farmer1'',
          password_hash = generate_password_hash env ''farmerpass'', role = ''farmer'',
          u_name = ''Alice Farmer'', contact_number = ''9876543210''\<rparr>,
         \<lparr>u_id = 3, username = ''cust1'',
          password_hash = generate_password_hash env ''custpass'', role = ''customer'',
          u_name = ''Bob Customer'', contact_number = ''9998887776''\<rparr>],
      products = products d @
        [\<lparr>p_id = next_id (map p_id (products d)), farmer_id = 2, p_name = ''Tomatoes'',
          description = ''Fresh red tomatoes'', quantity = 100, price = float_of_int env 30,
          image_url = ''/static/images/ai_tomatoes.jpg''\<rparr>,
         \<lparr>p_id = Suc (next_id (map p_id (products d))), farmer_id = 2, p_name = ''Spinach'',
          description = ''Leafy spinach'', quantity = 50, price = float_of_int env 20,
          image_url = ''/static/images/ai_spinach.jpg''\<rparr>,
         \<lparr>p_id = Suc (Suc (next_id (map p_id (products d)))), farmer_id = 2,
          p_name = ''Cabbage'', description = ''Crisp green cabbage'', quantity = 40,
          price = float_of_int env 25, image_url = ''/static/images/ai_cabbage.jpg''\<rparr>],
      orders = orders d @
        [\<lparr>o_id = next_id (map o_id (orders d)), customer_id = 3,
          product_id = next_id (map p_id (products d)), o_quantity = 5,
          total_price = float_of_int env 150, is_new = False\<rparr>]\<rparr>"
proof -
  have u: "next_id [] = Suc 0" "next_id [Suc 0] = 2" "next_id [Suc 0, 2] = 3"
    by (simp_all add: next_id_def)
  show ?thesis
    using assms
    by (simp add: create_demo_data_def Let_def u image_url_seeds next_id_append next_id_append2)
qed

text \<open>
  C9. create_demo_data on tables with at least one user returns them unchanged. On tables
  with no user it stores exactly three users (admin with role admin, farmer1 with role
  farmer, cust1 with role customer, ids 1 to 3), adds exactly three products of farmer1
  (Tomatoes 100 at 30.0, Spinach 50 at 20.0, Cabbage 40 at 25.0, each with its image) and
  exactly one order (cust1, 5 Tomatoes, total 150.0, not new). Running it twice gives what
  running it once gives.
\<close>

theorem demo_data_seeded_once:
  "(users d \<noteq> [] \<longrightarrow> create_demo_data env d = d)
   \<and> (users d = [] \<longrightarrow>
        users (create_demo_data env d) =
          [\<lparr>u_id = 1, username = ''admin'', password_hash = generate_password_hash env ''123'',
            role = ''admin'', u_name = ''System Admin'', contact_number = ''0000000000''\<rparr>,
           \<lparr>u_id = 2, username = ''farmer1'',
            password_hash = generate_password_hash env ''farmerpass'', role = ''farmer'',
            u_name = ''Alice Farmer'', contact_number = ''9876543210''\<rparr>,
           \<lparr>u_id = 3, username = ''cust1'',
            password_hash = generate_password_hash env ''custpass'', role = ''customer'',
            u_name = ''Bob Customer'', contact_number = ''9998887776''\<rparr>] \<and>
        products (create_demo_data env d) = products d @
          [\<lparr>p_id = next_id (map p_id (products d)), farmer_id = 2, p_name = ''Tomatoes'',
            description = ''Fresh red tomatoes'', quantity = 100, price = float_of_int env 30,
            image_url = ''/static/images/ai_tomatoes.jpg''\<rparr>,
           \<lparr>p_id = Suc (next_id (map p_id (products d))), farmer_id = 2, p_name = ''Spinach'',
            description = ''Leafy spinach'', quantity = 50, price = float_of_int env 20,
            image_url = ''/static/images/ai_spinach.jpg''\<rparr>,
           \<lparr>p_id = Suc (Suc (next_id (map p_id (products d)))), farmer_id = 2,
            p_name = ''Cabbage'', description = ''Crisp green cabbage'', quantity = 40,
            price = float_of_int env 25, image_url = ''/static/images/ai_cabbage.jpg''\<rparr>] \<and>
        orders (create_demo_data env d) = orders d @
          [\<lparr>o_id = next_id (map o_id (orders d)), customer_id = 3,
            product_id = next_id (map p_id (products d)), o_quantity = 5,
            total_price = float_of_int env 150, is_new = False\<rparr>])
   \<and> create_demo_data env (create_demo_data env d) = create_demo_data env d"
proof -
  have a: "create_demo_data env d' = d'" if "users d' \<noteq> []" for d'
    using that by (simp add: create_demo_data_def)
  have c: "create_demo_data env (create_demo_data env d) = create_demo_data env d"
  proof (cases "users d = []")
    case True
    have "users (create_demo_data env d) \<noteq> []"
      unfolding create_demo_data_seeds[OF True] by simp
    then show ?thesis by (rule a)
  next
    case False
    then show ?thesis by (simp add: a)
  qed
  show ?thesis using a c by (simp add: create_demo_data_seeds)
qed

text \<open>
  The theorem at the empty tables (the three users, three products and one order of the
  seeded tables) and at the seeded tables (unchanged).
\<close>

theorem demo_data_seeded_once_witness:
  "users (empty_db :: int db) = []
   \<and> map username (users seeded_db) = [''admin'', ''farmer1'', ''cust1'']
   \<and> map role (users seeded_db) = [''admin'', ''farmer'', ''customer'']
   \<and> map (\<lambda>p. (p_id p, farmer_id p, p_name p, quantity p, price p)) (products seeded_db) =
       [(1, 2, ''Tomatoes'', 100, 30), (2, 2, ''Spinach'', 50, 20), (3, 2, ''Cabbage'', 40, 25)]
   \<and> orders seeded_db =
       [\<lparr>o_id = 1, customer_id = 3, product_id = 1, o_quantity = 5, total_price = 150,
         is_new = False\<rparr>]
   \<and> users seeded_db \<noteq> []
   \<and> create_demo_data sample_env seeded_db = seeded_db"
proof -
  have e: "users (empty_db :: int db) = []" by (simp add: empty_db_def)
  note T = demo_data_seeded_once[where d = "empty_db :: int db" and env = sample_env]
  have us: "map username (users seeded_db) = [''admin'', ''farmer1'', ''cust1'']"
    "map role (users seeded_db) = [''admin'', ''farmer'', ''customer'']"
    unfolding seeded_db_def using T e by simp_all
  have ps: "map (\<lambda>p. (p_id p, farmer_id p, p_name p, quantity p, price p)) (products seeded_db) =
       [(1, 2, ''Tomatoes'', 100, 30), (2, 2, ''Spinach'', 50, 20), (3, 2, ''Cabbage'', 40, 25)]"
    unfolding seeded_db_def using T e by (simp add: empty_db_def next_id_def sample_env_def)
  have os: "orders seeded_db =
       [\<lparr>o_id = 1, customer_id = 3, product_id = 1, o_quantity = 5, total_price = 150,
         is_new = False\<rparr>]"
    unfolding seeded_db_def using T e by (simp add: empty_db_def next_id_def sample_env_def)
  have ne: "users seeded_db \<noteq> []" using us(1) by auto
  have same: "create_demo_data sample_env seeded_db = seeded_db"
    using demo_data_seeded_once[where d = seeded_db and env = sample_env] ne by blast
  show ?thesis using e us ps os ne same by simp
qed

section \<open>Editing a product\<close>





end
